theory Spec2Isabelle
  imports Complex_Main "HOL-Library.Log_Nat"
begin

section \<open>JavaScript numbers\<close>

text \<open>
  Prices and amounts are JavaScript Numbers (IEEE-754 binary64). A finite Number is
  modelled by the rational it denotes; \<open>*\<close> and \<open>+\<close> compute the exact result and round it
  to the nearest binary64 value, ties to even (\<open>fl\<close>). NaN, the infinities and the sign of
  zero are not modelled: results beyond the binary64 range do not occur for the amounts
  handled here. Quantities and stock counts are integers (validated by Joi as such).
\<close>

type_synonym number = rat

definition pow2 :: "int \<Rightarrow> rat" where
  "pow2 e = (if 0 \<le> e then 2 ^ nat e else 1 / 2 ^ nat (- e))"

text \<open>For \<open>0 < x\<close>, the exponent \<open>e\<close> with \<open>2 ^ e \<le> x < 2 ^ (e + 1)\<close>.\<close>

definition floor_log2 :: "rat \<Rightarrow> int" where
  "floor_log2 x = (case quotient_of x of (a, b) \<Rightarrow>
     let d = bitlen a - bitlen b in if pow2 d \<le> x then d else d - 1)"

definition round_half_even :: "rat \<Rightarrow> int" where
  "round_half_even r = (let f = \<lfloor>r\<rfloor>; d = r - of_int f in
     if d < 1 / 2 then f else if 1 / 2 < d then f + 1 else if even f then f else f + 1)"

text \<open>Rounding to binary64: 53 significant bits, least exponent \<open>-1074\<close>.\<close>

definition fl :: "rat \<Rightarrow> number" where
  "fl x = (if x = 0 then 0 else
     let e = floor_log2 \<bar>x\<bar>; q = pow2 (max (e - 52) (- 1074))
     in of_int (round_half_even (x / q)) * q)"

definition js_mul :: "number \<Rightarrow> number \<Rightarrow> number" where
  "js_mul a b = fl (a * b)"

definition js_add :: "number \<Rightarrow> number \<Rightarrow> number" where
  "js_add a b = fl (a + b)"

text \<open>\<open>Math.round\<close>: the nearest integer, a tie going towards \<open>+\<infinity>\<close>.\<close>

definition Math_round :: "number \<Rightarrow> int" where
  "Math_round x = \<lfloor>x + 1 / 2\<rfloor>"

text \<open>The value of \<open>xs.reduce((a, x) => a + x, 0)\<close>: a left-to-right sum in Number arithmetic.\<close>

definition js_sum :: "number list \<Rightarrow> number" where
  "js_sum xs = foldl js_add 0 xs"

section \<open>Data model\<close>

type_synonym object_id = string
type_synonym date = nat

text \<open>\<open>new AppError(message, statusCode)\<close>, thrown by the handlers and turned into the
  response by \<open>catchAsync\<close>; a middleware that answers \<open>res.status(c).json({message: m})\<close>
  itself is the same pair.\<close>

datatype app_error = AppError (message: string) (statusCode: nat)

record image_doc =
  url :: string

record product =
  name :: string
  price :: number
  stock :: int
  images :: "image_doc list"
  seller :: object_id

text \<open>An element of \<open>req.body.items\<close> of \<open>POST /orders\<close>.\<close>

record item =
  product :: object_id
  quantity :: int

text \<open>A line item of an order: the \<open>orderItem\<close> object literal of \<open>POST /orders\<close>.\<close>

record order_item =
  product :: object_id
  name :: string
  image' :: string
  price :: number
  quantity :: int

record shipping_address =
  fullName :: string
  address :: string
  city :: string
  state :: string
  postalCode :: string
  country :: string
  phone :: string

record status_entry =
  status :: string
  note' :: string
  timestamp :: date

record payment_result =
  id' :: "string option"
  status :: "string option"
  razorpayOrderId :: "string option"
  razorpayPaymentId :: "string option"
  razorpaySignature :: "string option"

record order =
  user :: object_id
  items :: "order_item list"
  shippingAddress :: shipping_address
  paymentMethod :: string
  notes' :: "string option"
  itemsPrice :: number
  shippingPrice :: number
  taxPrice :: number
  totalPrice :: number
  status :: string
  statusHistory :: "status_entry list"
  paymentResult :: payment_result
  paymentStatus :: string
  isPaid :: bool
  paidAt :: "date option"
  trackingNumber :: "string option"
  orderNumber :: string

text \<open>An element of \<open>user.refreshTokens\<close>.\<close>

record token_obj =
  token :: string

record user_doc =
  role :: string
  isLocked :: bool
  refreshTokens :: "token_obj list"

text \<open>The collections of the document database, each keyed by \<open>_id\<close>.\<close>

record db =
  products :: "object_id \<rightharpoonup> product"
  orders :: "object_id \<rightharpoonup> order"
  users :: "object_id \<rightharpoonup> user_doc"

section \<open>Order model methods\<close>

text \<open>Modelled from the spec: \<open>Order.addStatusUpdate\<close> of server/models/Order.js, a file
  that is not among the sources. The spec has a status update set the order's status and
  append one \<open>{status, note, timestamp}\<close> entry to the status history, which is never
  rewritten. The clock reading is the argument \<open>now\<close>.\<close>

definition addStatusUpdate :: "string \<Rightarrow> string \<Rightarrow> date \<Rightarrow> order \<Rightarrow> order" where
  "addStatusUpdate s n now ord =
     ord\<lparr>order.status := s,
         statusHistory := statusHistory ord @ [\<lparr>status_entry.status = s, note' = n, timestamp = now\<rparr>]\<rparr>"

text \<open>Modelled from the spec: \<open>Order.calculateTotals\<close> of server/models/Order.js. The spec
  has it compute shipping, tax and total from \<open>itemsPrice\<close> by a fixed policy; the two
  policy functions are parameters.\<close>

definition calculateTotals :: "(number \<Rightarrow> number) \<Rightarrow> (number \<Rightarrow> number) \<Rightarrow> order \<Rightarrow> order" where
  "calculateTotals shipping tax ord =
     ord\<lparr>shippingPrice := shipping (itemsPrice ord),
         taxPrice := tax (itemsPrice ord),
         totalPrice := js_add (js_add (itemsPrice ord) (shipping (itemsPrice ord)))
                              (tax (itemsPrice ord))\<rparr>"

text \<open>Modelled from the spec: the defaults of the Order schema (server/models/Order.js)
  that \<open>new Order({user, items, shippingAddress, paymentMethod, notes, itemsPrice})\<close>
  fills in: status and payment status \<open>pending\<close>, not paid, an empty history. The order
  number minted by the model is the argument \<open>num\<close>.\<close>

definition new_Order ::
  "string \<Rightarrow> object_id \<Rightarrow> order_item list \<Rightarrow> shipping_address \<Rightarrow> string \<Rightarrow> string option
     \<Rightarrow> number \<Rightarrow> order" where
  "new_Order num u its addr pm nts ip =
     \<lparr>user = u, items = its, shippingAddress = addr, paymentMethod = pm, notes' = nts,
      itemsPrice = ip, shippingPrice = 0, taxPrice = 0, totalPrice = 0,
      status = ''pending'', statusHistory = [],
      paymentResult = \<lparr>id' = None, payment_result.status = None, razorpayOrderId = None,
                       razorpayPaymentId = None, razorpaySignature = None\<rparr>,
      paymentStatus = ''pending'', isPaid = False, paidAt = None, trackingNumber = None,
      orderNumber = num\<rparr>"

section \<open>Order workflow (server/routes/orders.js)\<close>

text \<open>The object literal \<open>orderItem\<close>; \<open>product.images[0]?.url || ''\<close> is the first
  image's url, or the empty string when there is none.\<close>

definition orderItem :: "object_id \<Rightarrow> product \<Rightarrow> item \<Rightarrow> order_item" where
  "orderItem pid p it =
     \<lparr>product = pid, name = product.name p,
      image' = (case product.images p of [] \<Rightarrow> '''' | im # _ \<Rightarrow> url im),
      price = product.price p, quantity = item.quantity it\<rparr>"

text \<open>The first loop of \<open>POST /orders\<close>: \<open>ois\<close> is \<open>orderItems\<close>, \<open>ip\<close> is \<open>itemsPrice\<close>.
  \<open>Product.findById\<close> reads the collection; a \<open>throw\<close> leaves the loop with the error.\<close>

fun validate_items ::
  "(object_id \<rightharpoonup> product) \<Rightarrow> item list \<Rightarrow> order_item list \<Rightarrow> number
     \<Rightarrow> app_error + (order_item list \<times> number)" where
  "validate_items P [] ois ip = Inr (ois, ip)"
| "validate_items P (it # its) ois ip =
     (case P (item.product it) of
        None \<Rightarrow> Inl (AppError (''Product with ID '' @ item.product it @ '' not found'') 404)
      | Some p \<Rightarrow>
          if product.stock p < item.quantity it
          then Inl (AppError (''Insufficient stock for product '' @ product.name p) 400)
          else validate_items P its (ois @ [orderItem (item.product it) p it])
                 (js_add ip (js_mul (product.price p) (of_int (item.quantity it)))))"

text \<open>\<open>Product.findByIdAndUpdate(id, {$inc: {stock: d}})\<close>: no document, no update; the
  update runs no validator, so the stock may go below zero.\<close>

definition inc_stock :: "(object_id \<rightharpoonup> product) \<Rightarrow> object_id \<Rightarrow> int \<Rightarrow> (object_id \<rightharpoonup> product)" where
  "inc_stock P pid d = (case P pid of None \<Rightarrow> P | Some p \<Rightarrow> P(pid \<mapsto> p\<lparr>product.stock := product.stock p + d\<rparr>))"

text \<open>The second loop of \<open>POST /orders\<close>.\<close>

fun decrement_stock :: "(object_id \<rightharpoonup> product) \<Rightarrow> item list \<Rightarrow> (object_id \<rightharpoonup> product)" where
  "decrement_stock P [] = P"
| "decrement_stock P (it # its) =
     decrement_stock (inc_stock P (item.product it) (- item.quantity it)) its"

text \<open>\<open>POST /orders\<close> after \<open>authenticate\<close> and \<open>validateCreateOrder\<close>: \<open>uid\<close> is
  \<open>req.user._id\<close>, \<open>oid\<close> the \<open>_id\<close> given to the new document. The result is the response
  and the database afterwards.\<close>

definition post_orders ::
  "(number \<Rightarrow> number) \<Rightarrow> (number \<Rightarrow> number) \<Rightarrow> date \<Rightarrow> object_id \<Rightarrow> string \<Rightarrow> object_id
     \<Rightarrow> item list \<Rightarrow> shipping_address \<Rightarrow> string \<Rightarrow> string option \<Rightarrow> db
     \<Rightarrow> (app_error + order) \<times> db" where
  "post_orders shipping tax now oid num uid its addr pm nts st =
     (case validate_items (products st) its [] 0 of
        Inl e \<Rightarrow> (Inl e, st)
      | Inr (ois, ip) \<Rightarrow>
          let ord = new_Order num uid ois addr pm nts ip;
              ord = calculateTotals shipping tax ord;
              ord = addStatusUpdate ''pending'' ''Order placed successfully'' now ord;
              st = st\<lparr>orders := (orders st)(oid \<mapsto> ord)\<rparr>;
              st = st\<lparr>products := decrement_stock (products st) its\<rparr>
          in (Inr ord, st))"

text \<open>The restoring loop of \<open>PUT /orders/:id/cancel\<close>.\<close>

fun restore_stock :: "(object_id \<rightharpoonup> product) \<Rightarrow> order_item list \<Rightarrow> (object_id \<rightharpoonup> product)" where
  "restore_stock P [] = P"
| "restore_stock P (oi # ois) =
     restore_stock (inc_stock P (order_item.product oi) (order_item.quantity oi)) ois"

text \<open>\<open>PUT /orders/:id/cancel\<close> after \<open>authenticate\<close>: \<open>oid\<close> is \<open>req.params.id\<close>.\<close>

definition put_orders_cancel :: "date \<Rightarrow> object_id \<Rightarrow> object_id \<Rightarrow> db \<Rightarrow> (app_error + order) \<times> db" where
  "put_orders_cancel now uid oid st =
     (case orders st oid of
        None \<Rightarrow> (Inl (AppError ''Order not found'' 404), st)
      | Some ord \<Rightarrow>
          if user ord \<noteq> uid then (Inl (AppError ''Not authorized to cancel this order'' 403), st)
          else if order.status ord \<notin> set [''pending'', ''confirmed'']
          then (Inl (AppError ''Order cannot be cancelled at this stage'' 400), st)
          else
            let ord = addStatusUpdate ''cancelled'' ''Cancelled by user'' now ord;
                st = st\<lparr>orders := (orders st)(oid \<mapsto> ord)\<rparr>;
                st = st\<lparr>products := restore_stock (products st) (items ord)\<rparr>
            in (Inr ord, st))"

section \<open>Product routes (server/routes/products.js)\<close>

text \<open>The body of \<open>PUT /products/:id\<close> as \<open>validateUpdateProduct\<close> lets it through: every
  field optional (the fields the product record does not carry are left out).\<close>

record product_update =
  name :: "string option"
  price :: "number option"
  stock :: "int option"
  images :: "image_doc list option"

text \<open>\<open>Object.assign(product, req.body)\<close>: each field that the body has overwrites the
  product's.\<close>

definition Object_assign :: "product \<Rightarrow> product_update \<Rightarrow> product" where
  "Object_assign p b =
     p\<lparr>product.name := (case product_update.name b of None \<Rightarrow> product.name p | Some v \<Rightarrow> v),
       product.price := (case product_update.price b of None \<Rightarrow> product.price p | Some v \<Rightarrow> v),
       product.stock := (case product_update.stock b of None \<Rightarrow> product.stock p | Some v \<Rightarrow> v),
       product.images := (case product_update.images b of None \<Rightarrow> product.images p | Some v \<Rightarrow> v)\<rparr>"

text \<open>\<open>PUT /products/:id\<close> after \<open>authenticate\<close> and
  \<open>validateUpdateProduct\<close>: \<open>uid\<close> and \<open>r\<close> are \<open>req.user._id\<close> and \<open>req.user.role\<close>.\<close>

definition put_products ::
  "object_id \<Rightarrow> string \<Rightarrow> object_id \<Rightarrow> product_update \<Rightarrow> db \<Rightarrow> (app_error + product) \<times> db" where
  "put_products uid r pid body st =
     (case products st pid of
        None \<Rightarrow> (Inl (AppError ''Product not found'' 404), st)
      | Some p \<Rightarrow>
          if seller p \<noteq> uid \<and> r \<noteq> ''admin''
          then (Inl (AppError ''Not authorized to update this product'' 403), st)
          else let p = Object_assign p body
               in (Inr p, st\<lparr>products := (products st)(pid \<mapsto> p)\<rparr>))"

section \<open>Environment and external libraries\<close>

text \<open>\<open>process.env\<close>: the variables the handlers read. The two JWT secrets may be unset,
  the code then falls back to a literal.\<close>

record process_env =
  JWT_SECRET :: "string option"
  JWT_REFRESH_SECRET :: "string option"
  RAZORPAY_KEY_ID :: string
  RAZORPAY_KEY_SECRET :: string
  RAZORPAY_WEBHOOK_SECRET :: string

text \<open>\<open>x || d\<close> on an optional string: the empty string is falsy as well.\<close>

definition or_default :: "string option \<Rightarrow> string \<Rightarrow> string" where
  "or_default x d = (case x of None \<Rightarrow> d | Some s \<Rightarrow> if s = [] then d else s)"

text \<open>What \<open>jwt.verify(token, secret)\<close> does: it returns the payload's \<open>userId\<close> or throws.
  The library is a parameter \<open>jwt_verify\<close> of the middleware, with this result type.\<close>

datatype jwt_outcome = Decoded (userId: object_id) | TokenExpiredError | JsonWebTokenError

text \<open>The calls made to the payment gateway SDK, with the arguments sent.
  \<open>razorpay.orders.create({amount, currency, receipt, notes: {orderId, userId}})\<close> and
  \<open>razorpay.payments.refund(paymentId, {amount, speed, notes: {reason}})\<close>.\<close>

datatype gateway_call =
    orders_create (amount: int) (currency: string) (receipt: string)
      (notes_orderId: string) (notes_userId: string)
  | payments_refund (paymentId: "string option") (amount: int) (speed: string)
      (notes_reason: string)

text \<open>What the gateway answers: the entity's \<open>id\<close>, \<open>amount\<close> and \<open>currency\<close>. The SDK is a
  parameter \<open>razorpay\<close> of the handlers, a function from the call to the answer or to the
  error it throws.\<close>

record razorpay_entity =
  entity_id :: string
  entity_amount :: int
  entity_currency :: string

section \<open>Authentication gate (server/middleware/auth.js)\<close>

text \<open>\<open>authenticate\<close>: \<open>hdr\<close> is \<open>req.headers.authorization\<close>; on success \<open>req.user\<close> is the
  user document found, given with its \<open>_id\<close>.\<close>

definition authenticate ::
  "process_env \<Rightarrow> (string \<Rightarrow> string \<Rightarrow> jwt_outcome) \<Rightarrow> string option \<Rightarrow> db
     \<Rightarrow> app_error + (object_id \<times> user_doc)" where
  "authenticate env jwt_verify hdr st =
     (case hdr of
        None \<Rightarrow> Inl (AppError ''Access token required'' 401)
      | Some h \<Rightarrow>
          if h = [] \<or> take 7 h \<noteq> ''Bearer '' then Inl (AppError ''Access token required'' 401)
          else
            (case jwt_verify (drop 7 h) (or_default (JWT_SECRET env) ''your-secret-key'') of
               TokenExpiredError \<Rightarrow> Inl (AppError ''Access token expired'' 401)
             | JsonWebTokenError \<Rightarrow> Inl (AppError ''Invalid access token'' 401)
             | Decoded uid \<Rightarrow>
                 (case users st uid of
                    None \<Rightarrow> Inl (AppError ''User not found'' 401)
                  | Some u \<Rightarrow>
                      if isLocked u then Inl (AppError ''Account is temporarily locked'' 423)
                      else Inr (uid, u))))"

text \<open>\<open>authorize(...roles)\<close>: \<open>ru\<close> is \<open>req.user\<close>.\<close>

definition authorize :: "string list \<Rightarrow> (object_id \<times> user_doc) option \<Rightarrow> app_error + unit" where
  "authorize roles ru =
     (case ru of
        None \<Rightarrow> Inl (AppError ''Authentication required'' 401)
      | Some (uid, u) \<Rightarrow>
          if role u \<notin> set roles then Inl (AppError ''Insufficient permissions'' 403)
          else Inr ())"



section \<open>Session routes (server/routes/auth.js)\<close>



section \<open>User routes (server/routes/users.js)\<close>

text \<open>\<open>DELETE /users/:id\<close>, documented "Admin only": \<open>authenticate\<close>, \<open>authorize('admin')\<close>,
  then the handler.\<close>

definition delete_users ::
  "process_env \<Rightarrow> (string \<Rightarrow> string \<Rightarrow> jwt_outcome) \<Rightarrow> string option \<Rightarrow> object_id \<Rightarrow> db
     \<Rightarrow> (app_error + unit) \<times> db" where
  "delete_users env jwt_verify hdr target st =
     (case authenticate env jwt_verify hdr st of
        Inl e \<Rightarrow> (Inl e, st)
      | Inr ru \<Rightarrow>
          (case authorize [''admin''] (Some ru) of
             Inl e \<Rightarrow> (Inl e, st)
           | Inr _ \<Rightarrow>
               (case users st target of
                  None \<Rightarrow> (Inl (AppError ''User not found'' 404), st)
                | Some u \<Rightarrow>
                    if target = fst ru then (Inl (AppError ''Cannot delete your own account'' 400), st)
                    else (Inr (), st\<lparr>users := (users st)(target := None)\<rparr>))))"

section \<open>Payment workflow (server/routes/payments.js)\<close>

text \<open>The status a response carries: an \<open>AppError\<close> its \<open>statusCode\<close>, \<open>res.json(...)\<close> 200.\<close>

definition res_status :: "app_error + 'a \<Rightarrow> nat" where
  "res_status r = (case r of Inl e \<Rightarrow> statusCode e | Inr _ \<Rightarrow> 200)"



text \<open>The handler of \<open>POST /payments/verify-payment\<close>. \<open>hmac k d\<close> stands for
  \<open>crypto.createHmac('sha256', k).update(d).digest('hex')\<close>; \<open>rzOrderId\<close>, \<open>rzPaymentId\<close>
  and \<open>rzSignature\<close> are the three \<open>razorpay...\<close> fields of the body.\<close>

definition verify_payment ::
  "process_env \<Rightarrow> (string \<Rightarrow> string \<Rightarrow> string) \<Rightarrow> date \<Rightarrow> object_id \<Rightarrow> object_id
     \<Rightarrow> string \<Rightarrow> string \<Rightarrow> string \<Rightarrow> db \<Rightarrow> (app_error + order) \<times> db" where
  "verify_payment env hmac now uid orderId rzOrderId rzPaymentId rzSignature st =
     (case orders st orderId of
        None \<Rightarrow> (Inl (AppError ''Order not found'' 404), st)
      | Some ord \<Rightarrow>
          if user ord \<noteq> uid then (Inl (AppError ''Not authorized'' 403), st)
          else
            let body = rzOrderId @ ''|'' @ rzPaymentId;
                expectedSignature = hmac (RAZORPAY_KEY_SECRET env) body
            in if expectedSignature \<noteq> rzSignature
               then (Inl (AppError ''Invalid payment signature'' 400), st)
               else
                 let ord = ord\<lparr>paymentResult :=
                             \<lparr>id' = Some rzPaymentId, payment_result.status = Some ''completed'',
                              razorpayOrderId = Some rzOrderId,
                              razorpayPaymentId = Some rzPaymentId,
                              razorpaySignature = Some rzSignature\<rparr>,
                           paymentStatus := ''completed'', isPaid := True, paidAt := Some now\<rparr>;
                     ord = addStatusUpdate ''confirmed'' ''Payment completed successfully'' now ord
                 in (Inr ord, st\<lparr>orders := (orders st)(orderId \<mapsto> ord)\<rparr>))"

text \<open>The body of a webhook request, as the gateway sends it: the event name and, for the
  payment events, \<open>payload.payment.entity.notes.orderId\<close> (absent when the payment's notes
  carry no order id).\<close>

record webhook_body =
  event :: string
  payload_payment_entity_notes_orderId :: "object_id option"

text \<open>The handler of \<open>POST /payments/webhook\<close>: \<open>sig\<close> is the header
  \<open>x-razorpay-signature\<close>, \<open>stringify\<close> stands for \<open>JSON.stringify\<close> on the parsed body.
  \<open>Order.findById\<close> of an absent (\<open>undefined\<close>) id finds no document.\<close>

definition webhook ::
  "process_env \<Rightarrow> (string \<Rightarrow> string \<Rightarrow> string) \<Rightarrow> (webhook_body \<Rightarrow> string) \<Rightarrow> date
     \<Rightarrow> string option \<Rightarrow> webhook_body \<Rightarrow> db \<Rightarrow> (app_error + unit) \<times> db" where
  "webhook env hmac stringify now sig body st =
     (let expectedSignature = hmac (RAZORPAY_WEBHOOK_SECRET env) (stringify body)
      in if Some expectedSignature \<noteq> sig
         then (Inl (AppError ''Invalid webhook signature'' 400), st)
         else if event body = ''payment.captured'' then
           (case payload_payment_entity_notes_orderId body of
              None \<Rightarrow> (Inr (), st)
            | Some orderId \<Rightarrow>
                (case orders st orderId of
                   None \<Rightarrow> (Inr (), st)
                 | Some ord \<Rightarrow>
                     let ord = ord\<lparr>paymentStatus := ''completed'', isPaid := True,
                                   paidAt := Some now\<rparr>;
                         ord = addStatusUpdate ''confirmed'' ''Payment captured via webhook'' now ord
                     in (Inr (), st\<lparr>orders := (orders st)(orderId \<mapsto> ord)\<rparr>)))
         else if event body = ''payment.failed'' then
           (case payload_payment_entity_notes_orderId body of
              None \<Rightarrow> (Inr (), st)
            | Some failedOrderId \<Rightarrow>
                (case orders st failedOrderId of
                   None \<Rightarrow> (Inr (), st)
                 | Some failedOrder \<Rightarrow>
                     let failedOrder = failedOrder\<lparr>paymentStatus := ''failed''\<rparr>;
                         failedOrder = addStatusUpdate ''pending'' ''Payment failed'' now failedOrder
                     in (Inr (), st\<lparr>orders := (orders st)(failedOrderId \<mapsto> failedOrder)\<rparr>)))
         else (Inr (), st))"

text \<open>The handler of \<open>POST /payments/refund\<close>: \<open>orderId\<close>, \<open>amt\<close> and \<open>reason\<close> are the
  body's fields. The answer is the refund id and the order.\<close>

definition refund_handler ::
  "(gateway_call \<Rightarrow> app_error + razorpay_entity) \<Rightarrow> date \<Rightarrow> object_id \<Rightarrow> number \<Rightarrow> string option
     \<Rightarrow> db \<Rightarrow> (app_error + string \<times> order) \<times> db \<times> gateway_call list" where
  "refund_handler razorpay now orderId amt reason st =
     (case orders st orderId of
        None \<Rightarrow> (Inl (AppError ''Order not found'' 404), st, [])
      | Some ord \<Rightarrow>
          if \<not> isPaid ord then (Inl (AppError ''Order is not paid'' 400), st, [])
          else
            let call = payments_refund (razorpayPaymentId (paymentResult ord))
                         (Math_round (js_mul amt 100)) ''normal''
                         (or_default reason ''Refund requested'')
            in (case razorpay call of
                  Inl e \<Rightarrow> (Inl e, st, [call])
                | Inr refund \<Rightarrow>
                    let ord = ord\<lparr>paymentStatus := ''refunded''\<rparr>;
                        ord = addStatusUpdate ''cancelled''
                                (''Refund processed: '' @ entity_id refund) now ord
                    in (Inr (entity_id refund, ord),
                        st\<lparr>orders := (orders st)(orderId \<mapsto> ord)\<rparr>, [call])))"

text \<open>The route \<open>POST /payments/refund\<close>, documented "Process refund (Admin only)":
  \<open>router.post('/refund', authenticate, catchAsync(...))\<close>, so \<open>authenticate\<close> and then the
  handler.\<close>

definition post_payments_refund ::
  "process_env \<Rightarrow> (string \<Rightarrow> string \<Rightarrow> jwt_outcome) \<Rightarrow> (gateway_call \<Rightarrow> app_error + razorpay_entity)
     \<Rightarrow> date \<Rightarrow> string option \<Rightarrow> object_id \<Rightarrow> number \<Rightarrow> string option \<Rightarrow> db
     \<Rightarrow> (app_error + string \<times> order) \<times> db \<times> gateway_call list" where
  "post_payments_refund env jwt_verify razorpay now hdr orderId amt reason st =
     (case authenticate env jwt_verify hdr st of
        Inl e \<Rightarrow> (Inl e, st, [])
      | Inr ru \<Rightarrow> refund_handler razorpay now orderId amt reason st)"

section \<open>Example data\<close>

definition ex_address :: shipping_address where
  "ex_address = \<lparr>fullName = ''A B'', address = ''1 Main Road'', city = ''Pune'', state = ''MH'',
     postalCode = ''411001'', country = ''India'', phone = ''+91 1''\<rparr>"

definition ex_products :: "object_id \<rightharpoonup> product" where
  "ex_products =
     [''p1'' \<mapsto> \<lparr>product.name = ''Pen'', price = 100, stock = 5,
                 images = [\<lparr>url = ''pen.png''\<rparr>], seller = ''s1''\<rparr>,
      ''p2'' \<mapsto> \<lparr>product.name = ''Ink'', price = 40, stock = 1, images = [], seller = ''s1''\<rparr>]"

definition ex_db :: db where
  "ex_db = \<lparr>products = ex_products, orders = Map.empty, users = Map.empty\<rparr>"

definition ex_order :: order where
  "ex_order =
     \<lparr>user = ''u1'',
      items = [\<lparr>order_item.product = ''p1'', name = ''Pen'', image' = ''pen.png'', price = 100,
                quantity = 2\<rparr>],
      shippingAddress = ex_address, paymentMethod = ''razorpay'', notes' = None,
      itemsPrice = 200, shippingPrice = 50, taxPrice = 1 / 2, totalPrice = 501 / 2,
      status = ''pending'',
      statusHistory = [\<lparr>status_entry.status = ''pending'', note' = ''Order placed successfully'',
                         timestamp = 10\<rparr>],
      paymentResult = \<lparr>id' = None, payment_result.status = None, razorpayOrderId = None,
                       razorpayPaymentId = None, razorpaySignature = None\<rparr>,
      paymentStatus = ''pending'', isPaid = False, paidAt = None, trackingNumber = None,
      orderNumber = ''ORD-1''\<rparr>"

definition ex_db_ordered :: db where
  "ex_db_ordered =
     \<lparr>products = ex_products(''p1'' \<mapsto> \<lparr>product.name = ''Pen'', price = 100, stock = 3,
                   images = [\<lparr>url = ''pen.png''\<rparr>], seller = ''s1''\<rparr>),
      orders = [''o1'' \<mapsto> ex_order, ''o2'' \<mapsto> ex_order\<lparr>order.status := ''shipped''\<rparr>],
      users = Map.empty\<rparr>"

definition ex_env :: process_env where
  "ex_env = \<lparr>JWT_SECRET = Some ''js'', JWT_REFRESH_SECRET = Some ''jr'', RAZORPAY_KEY_ID = ''kid'',
     RAZORPAY_KEY_SECRET = ''ks'', RAZORPAY_WEBHOOK_SECRET = ''ws''\<rparr>"

text \<open>Stand-ins for the external libraries, used where a property is evaluated on an example;
  the properties themselves hold for every such function.\<close>

definition ex_hmac :: "string \<Rightarrow> string \<Rightarrow> string" where
  "ex_hmac k d = k @ '':'' @ d"

definition ex_stringify :: "webhook_body \<Rightarrow> string" where
  "ex_stringify b = event b @ ''/'' @
     (case payload_payment_entity_notes_orderId b of None \<Rightarrow> '''' | Some i \<Rightarrow> i)"

definition ex_razorpay :: "gateway_call \<Rightarrow> app_error + razorpay_entity" where
  "ex_razorpay c = Inr \<lparr>entity_id = ''rz1'', entity_amount = amount c, entity_currency = ''INR''\<rparr>"

definition ex_jwt_verify :: "string \<Rightarrow> string \<Rightarrow> jwt_outcome" where
  "ex_jwt_verify t secret =
     (if t = ''a1'' \<or> t = ''r1'' \<or> t = ''r9'' then Decoded ''u1''
      else if t = ''rx'' then TokenExpiredError else JsonWebTokenError)"


definition ex_user :: user_doc where
  "ex_user = \<lparr>role = ''user'', isLocked = False,
     refreshTokens = [\<lparr>token = ''r1''\<rparr>, \<lparr>token = ''rx''\<rparr>]\<rparr>"

definition ex_paid_order :: order where
  "ex_paid_order =
     ex_order\<lparr>paymentResult :=
                 \<lparr>id' = Some ''pay1'', payment_result.status = Some ''completed'',
                  razorpayOrderId = Some ''rzo1'', razorpayPaymentId = Some ''pay1'',
                  razorpaySignature = Some ''ks:rzo1|pay1''\<rparr>,
               paymentStatus := ''completed'', isPaid := True, paidAt := Some 20,
               order.status := ''confirmed'',
               statusHistory := statusHistory ex_order @
                 [\<lparr>status_entry.status = ''confirmed'', note' = ''Payment completed successfully'',
                   timestamp = 20\<rparr>]\<rparr>"

definition ex_db_users :: db where
  "ex_db_users = ex_db_ordered\<lparr>users := [''u1'' \<mapsto> ex_user]\<rparr>"

definition ex_db_paid :: db where
  "ex_db_paid = ex_db_users\<lparr>orders := [''o1'' \<mapsto> ex_paid_order]\<rparr>"

definition ex_captured :: webhook_body where
  "ex_captured = \<lparr>event = ''payment.captured'', payload_payment_entity_notes_orderId = Some ''o1''\<rparr>"

section \<open>Properties\<close>

subsection \<open>Order creation\<close>

lemma validate_items_append:
  "\<forall>j\<in>set pre. \<exists>p. P (item.product j) = Some p \<and> item.quantity j \<le> product.stock p \<Longrightarrow>
   validate_items P (pre @ rest) ois ip =
     validate_items P rest
       (ois @ map (\<lambda>j. orderItem (item.product j) (the (P (item.product j))) j) pre)
       (foldl (\<lambda>a j. js_add a (js_mul (product.price (the (P (item.product j)))) (of_int (item.quantity j)))) ip pre)"
proof (induction pre arbitrary: ois ip)
  case Nil
  show ?case by simp
next
  case (Cons j pre)
  from Cons.prems obtain p where p: "P (item.product j) = Some p" "item.quantity j \<le> product.stock p"
    by auto
  from Cons.prems have rest: "\<forall>j\<in>set pre. \<exists>p. P (item.product j) = Some p \<and> item.quantity j \<le> product.stock p"
    by simp
  show ?case using p Cons.IH [OF rest] by simp
qed

lemma validate_items_all_ok:
  "\<forall>j\<in>set its. \<exists>p. P (item.product j) = Some p \<and> item.quantity j \<le> product.stock p \<Longrightarrow>
   validate_items P its ois ip =
     Inr (ois @ map (\<lambda>j. orderItem (item.product j) (the (P (item.product j))) j) its,
          foldl (\<lambda>a j. js_add a (js_mul (product.price (the (P (item.product j)))) (of_int (item.quantity j)))) ip its)"
  using validate_items_append [of its P "[]" ois ip] by simp

lemma validate_items_Inr_ok:
  "validate_items P its ois ip = Inr r \<Longrightarrow>
   \<forall>j\<in>set its. \<exists>p. P (item.product j) = Some p \<and> item.quantity j \<le> product.stock p"
  by (induction its arbitrary: ois ip) (auto split: option.splits if_splits)


lemma validate_items_sum:
  "validate_items P its ois ip = Inr (ois', ip') \<Longrightarrow>
   ip = foldl (\<lambda>a oi. js_add a (js_mul (order_item.price oi) (of_int (order_item.quantity oi)))) 0 ois \<Longrightarrow>
   ip' = foldl (\<lambda>a oi. js_add a (js_mul (order_item.price oi) (of_int (order_item.quantity oi)))) 0 ois'"
proof (induction its arbitrary: ois ip)
  case Nil
  then show ?case by auto
next
  case (Cons j its)
  from Cons.prems(1) obtain p where p: "P (item.product j) = Some p"
    by (auto split: option.splits)
  from Cons.prems(1) p have ok: "\<not> product.stock p < item.quantity j"
    by (auto split: if_splits)
  from Cons.prems(1) p ok have
    run: "validate_items P its (ois @ [orderItem (item.product j) p j])
            (js_add ip (js_mul (product.price p) (of_int (item.quantity j)))) = Inr (ois', ip')"
    by simp
  show ?case
    by (rule Cons.IH [OF run]) (simp add: Cons.prems(2) orderItem_def)
qed

lemma inc_stock_lookup:
  "inc_stock P pid d q =
     (if q = pid then map_option (\<lambda>p. p\<lparr>product.stock := product.stock p + d\<rparr>) (P q) else P q)"
  by (simp add: inc_stock_def split: option.splits)

lemma decrement_stock_lookup:
  "decrement_stock P its pid =
     map_option (\<lambda>p. p\<lparr>product.stock := product.stock p
        - sum_list (map item.quantity (filter (\<lambda>j. item.product j = pid) its))\<rparr>) (P pid)"
proof (induction its arbitrary: P)
  case Nil
  show ?case by (cases "P pid") simp_all
next
  case (Cons j its)
  show ?case
  proof (cases "item.product j = pid")
    case True
    then show ?thesis
      by (cases "P pid") (simp_all add: Cons.IH inc_stock_lookup)
  next
    case False
    then have "pid \<noteq> item.product j" by blast
    with False show ?thesis
      by (simp add: Cons.IH inc_stock_lookup)
  qed
qed

lemma restore_stock_lookup:
  "restore_stock P ois pid =
     map_option (\<lambda>p. p\<lparr>product.stock := product.stock p
        + sum_list (map order_item.quantity (filter (\<lambda>j. order_item.product j = pid) ois))\<rparr>) (P pid)"
proof (induction ois arbitrary: P)
  case Nil
  show ?case by (cases "P pid") simp_all
next
  case (Cons j ois)
  show ?case
  proof (cases "order_item.product j = pid")
    case True
    then show ?thesis
      by (cases "P pid") (simp_all add: Cons.IH inc_stock_lookup add.assoc)
  next
    case False
    then have "pid \<noteq> order_item.product j" by blast
    with False show ?thesis
      by (simp add: Cons.IH inc_stock_lookup)
  qed
qed

lemma put_products_orders: "orders (snd (put_products u r pid body st)) = orders st"
  by (simp add: put_products_def Let_def split: option.splits)

lemma js_line_200: "js_add 0 (js_mul 100 2) = 200"
  by code_simp

text \<open>C1. Order creation resolves each item's product and fails with NotFound (404) at the
  first item whose product is absent; it fails with InsufficientStock (400) at the first
  item whose product has less stock than the quantity asked for; when every item passes,
  each line item carries the product's name, price and first image as read then, the
  order's \<open>itemsPrice\<close> is the sum (in Number arithmetic, in item order) of the line prices
  times quantities, and a later update of any product leaves the stored order as it is.\<close>

theorem post_orders_contract:
  "(its = pre @ j # post \<and>
    (\<forall>i\<in>set pre. \<exists>p. products st (item.product i) = Some p \<and> item.quantity i \<le> product.stock p) \<and>
    products st (item.product j) = None \<longrightarrow>
      post_orders sh tx now oid num uid its addr pm nts st =
        (Inl (AppError (''Product with ID '' @ item.product j @ '' not found'') 404), st)) \<and>
   (its = pre @ j # post \<and>
    (\<forall>i\<in>set pre. \<exists>p. products st (item.product i) = Some p \<and> item.quantity i \<le> product.stock p) \<and>
    products st (item.product j) = Some q \<and> product.stock q < item.quantity j \<longrightarrow>
      post_orders sh tx now oid num uid its addr pm nts st =
        (Inl (AppError (''Insufficient stock for product '' @ product.name q) 400), st)) \<and>
   ((\<forall>i\<in>set its. \<exists>p. products st (item.product i) = Some p \<and> item.quantity i \<le> product.stock p) \<longrightarrow>
      (\<exists>ord st'. post_orders sh tx now oid num uid its addr pm nts st = (Inr ord, st') \<and>
         list_all2 (\<lambda>i oi. \<exists>p. products st (item.product i) = Some p \<and>
                      order_item.product oi = item.product i \<and>
                      order_item.name oi = product.name p \<and>
                      order_item.price oi = product.price p \<and>
                      image' oi = (case product.images p of [] \<Rightarrow> '''' | im # _ \<Rightarrow> url im) \<and>
                      order_item.quantity oi = item.quantity i) its (items ord) \<and>
         itemsPrice ord =
           js_sum (map (\<lambda>oi. js_mul (order_item.price oi) (of_int (order_item.quantity oi))) (items ord)) \<and>
         orders st' oid = Some ord \<and>
         (\<forall>u r pid body. orders (snd (put_products u r pid body st')) oid = Some ord)))"
proof (intro conjI impI)
  assume a: "its = pre @ j # post \<and>
    (\<forall>i\<in>set pre. \<exists>p. products st (item.product i) = Some p \<and> item.quantity i \<le> product.stock p) \<and>
    products st (item.product j) = None"
  then have "validate_items (products st) its [] 0 =
        Inl (AppError (''Product with ID '' @ item.product j @ '' not found'') 404)"
    by (simp add: validate_items_append)
  then show "post_orders sh tx now oid num uid its addr pm nts st =
        (Inl (AppError (''Product with ID '' @ item.product j @ '' not found'') 404), st)"
    by (simp add: post_orders_def)
next
  assume a: "its = pre @ j # post \<and>
    (\<forall>i\<in>set pre. \<exists>p. products st (item.product i) = Some p \<and> item.quantity i \<le> product.stock p) \<and>
    products st (item.product j) = Some q \<and> product.stock q < item.quantity j"
  then have "validate_items (products st) its [] 0 =
        Inl (AppError (''Insufficient stock for product '' @ product.name q) 400)"
    by (simp add: validate_items_append)
  then show "post_orders sh tx now oid num uid its addr pm nts st =
        (Inl (AppError (''Insufficient stock for product '' @ product.name q) 400), st)"
    by (simp add: post_orders_def)
next
  let ?P = "products st"
  let ?ois = "map (\<lambda>j. orderItem (item.product j) (the (?P (item.product j))) j) its"
  let ?ip = "foldl (\<lambda>a j. js_add a (js_mul (product.price (the (?P (item.product j)))) (of_int (item.quantity j)))) 0 its"
  assume ok: "\<forall>i\<in>set its. \<exists>p. ?P (item.product i) = Some p \<and> item.quantity i \<le> product.stock p"
  then have run: "validate_items ?P its [] 0 = Inr (?ois, ?ip)"
    by (simp add: validate_items_all_ok)
  define ord where "ord = addStatusUpdate ''pending'' ''Order placed successfully'' now
      (calculateTotals sh tx (new_Order num uid ?ois addr pm nts ?ip))"
  define st' where "st' = st\<lparr>orders := (orders st)(oid \<mapsto> ord),
      products := decrement_stock ?P its\<rparr>"
  have res: "post_orders sh tx now oid num uid its addr pm nts st = (Inr ord, st')"
    by (simp add: post_orders_def run ord_def st'_def Let_def)
  have its_ord: "items ord = ?ois"
    by (simp add: ord_def addStatusUpdate_def calculateTotals_def new_Order_def)
  have ip_ord: "itemsPrice ord = ?ip"
    by (simp add: ord_def addStatusUpdate_def calculateTotals_def new_Order_def)
  have snap: "list_all2 (\<lambda>i oi. \<exists>p. ?P (item.product i) = Some p \<and>
                      order_item.product oi = item.product i \<and>
                      order_item.name oi = product.name p \<and>
                      order_item.price oi = product.price p \<and>
                      image' oi = (case product.images p of [] \<Rightarrow> '''' | im # _ \<Rightarrow> url im) \<and>
                      order_item.quantity oi = item.quantity i) its (items ord)"
    unfolding its_ord list_all2_map2
    by (rule list_all2_same [THEN iffD2]) (use ok in \<open>auto simp: orderItem_def\<close>)
  have sum: "itemsPrice ord =
      js_sum (map (\<lambda>oi. js_mul (order_item.price oi) (of_int (order_item.quantity oi))) (items ord))"
    using validate_items_sum [OF run] by (simp add: its_ord ip_ord js_sum_def foldl_map)
  have stored: "orders st' oid = Some ord"
    by (simp add: st'_def)
  have later: "\<forall>u r pid body. orders (snd (put_products u r pid body st')) oid = Some ord"
    by (simp add: put_products_orders stored)
  from res snap sum stored later
  show "\<exists>ord st'. post_orders sh tx now oid num uid its addr pm nts st = (Inr ord, st') \<and>
         list_all2 (\<lambda>i oi. \<exists>p. products st (item.product i) = Some p \<and>
                      order_item.product oi = item.product i \<and>
                      order_item.name oi = product.name p \<and>
                      order_item.price oi = product.price p \<and>
                      image' oi = (case product.images p of [] \<Rightarrow> '''' | im # _ \<Rightarrow> url im) \<and>
                      order_item.quantity oi = item.quantity i) its (items ord) \<and>
         itemsPrice ord =
           js_sum (map (\<lambda>oi. js_mul (order_item.price oi) (of_int (order_item.quantity oi))) (items ord)) \<and>
         orders st' oid = Some ord \<and>
         (\<forall>u r pid body. orders (snd (put_products u r pid body st')) oid = Some ord)"
    by blast
qed

theorem post_orders_contract_witness:
  "post_orders (\<lambda>_. 0) (\<lambda>_. 0) 10 ''o1'' ''ORD-1'' ''u1''
      [\<lparr>item.product = ''p1'', quantity = 2\<rparr>, \<lparr>item.product = ''p9'', quantity = 1\<rparr>]
      ex_address ''cod'' None ex_db
     = (Inl (AppError ''Product with ID p9 not found'' 404), ex_db) \<and>
   post_orders (\<lambda>_. 0) (\<lambda>_. 0) 10 ''o1'' ''ORD-1'' ''u1''
      [\<lparr>item.product = ''p1'', quantity = 2\<rparr>, \<lparr>item.product = ''p2'', quantity = 3\<rparr>]
      ex_address ''cod'' None ex_db
     = (Inl (AppError ''Insufficient stock for product Ink'' 400), ex_db) \<and>
   (\<exists>ord st'. post_orders (\<lambda>_. 0) (\<lambda>_. 0) 10 ''o1'' ''ORD-1'' ''u1''
        [\<lparr>item.product = ''p1'', quantity = 2\<rparr>] ex_address ''cod'' None ex_db = (Inr ord, st') \<and>
      map order_item.name (items ord) = [''Pen''] \<and>
      map order_item.price (items ord) = [100] \<and>
      map image' (items ord) = [''pen.png''] \<and>
      itemsPrice ord = 200 \<and>
      orders (snd (put_products ''s1'' ''user'' ''p1''
                \<lparr>product_update.name = None, price = Some 999, stock = None, images = None\<rparr> st')) ''o1''
        = Some ord)"
proof -
  let ?a = "\<lparr>item.product = ''p1'', quantity = 2\<rparr>"
  let ?b = "\<lparr>item.product = ''p9'', quantity = 1\<rparr>"
  let ?c = "\<lparr>item.product = ''p2'', quantity = 3\<rparr>"
  have c1: "post_orders (\<lambda>_. 0) (\<lambda>_. 0) 10 ''o1'' ''ORD-1'' ''u1'' [?a, ?b] ex_address ''cod'' None ex_db
     = (Inl (AppError ''Product with ID p9 not found'' 404), ex_db)"
    using post_orders_contract [where its = "[?a, ?b]" and pre = "[?a]" and j = ?b and post = "[]"
        and st = ex_db and sh = "\<lambda>_. 0" and tx = "\<lambda>_. 0" and now = 10 and oid = "''o1''"
        and num = "''ORD-1''" and uid = "''u1''" and addr = ex_address and pm = "''cod''"
        and nts = None, THEN conjunct1]
    by (simp add: ex_db_def ex_products_def)
  have c2: "post_orders (\<lambda>_. 0) (\<lambda>_. 0) 10 ''o1'' ''ORD-1'' ''u1'' [?a, ?c] ex_address ''cod'' None ex_db
     = (Inl (AppError ''Insufficient stock for product Ink'' 400), ex_db)"
    using post_orders_contract [where its = "[?a, ?c]" and pre = "[?a]" and j = ?c and post = "[]"
        and st = ex_db and sh = "\<lambda>_. 0" and tx = "\<lambda>_. 0" and now = 10 and oid = "''o1''"
        and num = "''ORD-1''" and uid = "''u1''" and addr = ex_address and pm = "''cod''"
        and nts = None
        and q = "\<lparr>product.name = ''Ink'', price = 40, stock = 1, images = [], seller = ''s1''\<rparr>",
        THEN conjunct2, THEN conjunct1]
    by (simp add: ex_db_def ex_products_def)
  have c3: "\<exists>ord st'. post_orders (\<lambda>_. 0) (\<lambda>_. 0) 10 ''o1'' ''ORD-1'' ''u1''
        [?a] ex_address ''cod'' None ex_db = (Inr ord, st') \<and>
      map order_item.name (items ord) = [''Pen''] \<and>
      map order_item.price (items ord) = [100] \<and>
      map image' (items ord) = [''pen.png''] \<and>
      itemsPrice ord = 200 \<and>
      orders (snd (put_products ''s1'' ''user'' ''p1''
                \<lparr>product_update.name = None, price = Some 999, stock = None, images = None\<rparr> st')) ''o1''
        = Some ord"
    using post_orders_contract [where its = "[?a]"
        and st = ex_db and sh = "\<lambda>_. 0" and tx = "\<lambda>_. 0" and now = 10 and oid = "''o1''"
        and num = "''ORD-1''" and uid = "''u1''" and addr = ex_address and pm = "''cod''"
        and nts = None, THEN conjunct2, THEN conjunct2]
    by (auto simp: ex_db_def ex_products_def list_all2_Cons1 js_sum_def js_line_200)
  from c1 c2 c3 show ?thesis by blast
qed



lemma post_orders_success:
  assumes ok: "\<forall>i\<in>set its. \<exists>p. products st (item.product i) = Some p \<and>
                       item.quantity i \<le> product.stock p"
  shows "\<exists>ord. post_orders sh tx now oid num uid its addr pm nts st =
        (Inr ord, st\<lparr>orders := (orders st)(oid \<mapsto> ord),
                     products := decrement_stock (products st) its\<rparr>)"
proof -
  from validate_items_all_ok [OF ok, of "[]" 0]
  obtain v where v: "validate_items (products st) its [] 0 = Inr v" by blast
  obtain ois ip where "v = (ois, ip)" by (cases v)
  with v show ?thesis
    by (simp add: post_orders_def Let_def)
qed

lemma post_orders_Inr_D:
  assumes r: "post_orders sh tx now oid num uid its addr pm nts st = (Inr ord, st')"
  shows "(\<forall>i\<in>set its. \<exists>p. products st (item.product i) = Some p \<and>
                       item.quantity i \<le> product.stock p) \<and>
     products st' = decrement_stock (products st) its"
proof (cases "validate_items (products st) its [] 0")
  case (Inl e)
  with r show ?thesis by (simp add: post_orders_def)
next
  case (Inr v)
  obtain ois ip where v: "v = (ois, ip)" by (cases v)
  from r Inr v have "products st' = decrement_stock (products st) its"
    by (auto simp add: post_orders_def Let_def)
  with validate_items_Inr_ok [OF Inr] show ?thesis by blast
qed

text \<open>C10. Order creation checks the stock line by line against the stock each check
  reads, which is the stock before the request, since the decrements run only after every
  check has passed: creation succeeds exactly when each line's quantity is at most its
  product's stock, and then each product's stock is lowered by the sum of its lines. In
  particular two lines naming the same product succeed when each quantity alone is at
  most the stock, even when their sum exceeds it.\<close>

theorem post_orders_per_line_stock_check:
  "((\<exists>ord st'. post_orders sh tx now oid num uid its addr pm nts st = (Inr ord, st')) \<longleftrightarrow>
      (\<forall>i\<in>set its. \<exists>p. products st (item.product i) = Some p \<and>
                       item.quantity i \<le> product.stock p)) \<and>
   (\<forall>ord st'. post_orders sh tx now oid num uid its addr pm nts st = (Inr ord, st') \<longrightarrow>
      products st' = decrement_stock (products st) its \<and>
      (\<forall>pid p. products st pid = Some p \<longrightarrow>
         products st' pid = Some (p\<lparr>product.stock := product.stock p -
           sum_list (map item.quantity (filter (\<lambda>i. item.product i = pid) its))\<rparr>))) \<and>
   (products st pid = Some p \<and> q1 \<le> product.stock p \<and> q2 \<le> product.stock p \<longrightarrow>
      (\<exists>ord st'. post_orders sh tx now oid num uid
           [\<lparr>item.product = pid, quantity = q1\<rparr>, \<lparr>item.product = pid, quantity = q2\<rparr>]
           addr pm nts st = (Inr ord, st') \<and>
         products st' pid = Some (p\<lparr>product.stock := product.stock p - q1 - q2\<rparr>)))"
proof (intro conjI)
  show "(\<exists>ord st'. post_orders sh tx now oid num uid its addr pm nts st = (Inr ord, st')) \<longleftrightarrow>
      (\<forall>i\<in>set its. \<exists>p. products st (item.product i) = Some p \<and>
                       item.quantity i \<le> product.stock p)"
  proof
    assume "\<exists>ord st'. post_orders sh tx now oid num uid its addr pm nts st = (Inr ord, st')"
    then obtain ord st' where
      "post_orders sh tx now oid num uid its addr pm nts st = (Inr ord, st')" by blast
    from post_orders_Inr_D [OF this]
    show "\<forall>i\<in>set its. \<exists>p. products st (item.product i) = Some p \<and>
                       item.quantity i \<le> product.stock p" ..
  next
    assume "\<forall>i\<in>set its. \<exists>p. products st (item.product i) = Some p \<and>
                       item.quantity i \<le> product.stock p"
    from post_orders_success [OF this]
    show "\<exists>ord st'. post_orders sh tx now oid num uid its addr pm nts st = (Inr ord, st')"
      by blast
  qed
next
  show "\<forall>ord st'. post_orders sh tx now oid num uid its addr pm nts st = (Inr ord, st') \<longrightarrow>
      products st' = decrement_stock (products st) its \<and>
      (\<forall>pid p. products st pid = Some p \<longrightarrow>
         products st' pid = Some (p\<lparr>product.stock := product.stock p -
           sum_list (map item.quantity (filter (\<lambda>i. item.product i = pid) its))\<rparr>))"
  proof (intro allI impI)
    fix ord st'
    assume "post_orders sh tx now oid num uid its addr pm nts st = (Inr ord, st')"
    from post_orders_Inr_D [OF this]
    have eq: "products st' = decrement_stock (products st) its" ..
    show "products st' = decrement_stock (products st) its \<and>
      (\<forall>pid p. products st pid = Some p \<longrightarrow>
         products st' pid = Some (p\<lparr>product.stock := product.stock p -
           sum_list (map item.quantity (filter (\<lambda>i. item.product i = pid) its))\<rparr>))"
      by (simp add: eq decrement_stock_lookup)
  qed
next
  show "products st pid = Some p \<and> q1 \<le> product.stock p \<and> q2 \<le> product.stock p \<longrightarrow>
      (\<exists>ord st'. post_orders sh tx now oid num uid
           [\<lparr>item.product = pid, quantity = q1\<rparr>, \<lparr>item.product = pid, quantity = q2\<rparr>]
           addr pm nts st = (Inr ord, st') \<and>
         products st' pid = Some (p\<lparr>product.stock := product.stock p - q1 - q2\<rparr>))"
  proof
    assume a: "products st pid = Some p \<and> q1 \<le> product.stock p \<and> q2 \<le> product.stock p"
    let ?its = "[\<lparr>item.product = pid, quantity = q1\<rparr>, \<lparr>item.product = pid, quantity = q2\<rparr>]"
    from a have "\<forall>i\<in>set ?its. \<exists>p. products st (item.product i) = Some p \<and>
                       item.quantity i \<le> product.stock p"
      by simp
    from post_orders_success [OF this] obtain ord where
      r: "post_orders sh tx now oid num uid ?its addr pm nts st =
        (Inr ord, st\<lparr>orders := (orders st)(oid \<mapsto> ord),
                     products := decrement_stock (products st) ?its\<rparr>)" ..
    have "decrement_stock (products st) ?its pid =
        Some (p\<lparr>product.stock := product.stock p - q1 - q2\<rparr>)"
      using a by (simp add: inc_stock_lookup)
    with r show "\<exists>ord st'. post_orders sh tx now oid num uid ?its addr pm nts st = (Inr ord, st') \<and>
         products st' pid = Some (p\<lparr>product.stock := product.stock p - q1 - q2\<rparr>)"
      by simp
  qed
qed

theorem post_orders_per_line_stock_check_witness:
  "map_option product.stock (products ex_db ''p1'') = Some 5 \<and> (3::int) \<le> 5 \<and> (5::int) < 3 + 3 \<and>
   (\<exists>ord st'. post_orders (\<lambda>_. 0) (\<lambda>_. 0) 10 ''o1'' ''ORD-1'' ''u1''
        [\<lparr>item.product = ''p1'', quantity = 3\<rparr>, \<lparr>item.product = ''p1'', quantity = 3\<rparr>]
        ex_address ''cod'' None ex_db = (Inr ord, st') \<and>
      map_option product.stock (products st' ''p1'') = Some (- 1))"
proof -
  let ?p = "\<lparr>product.name = ''Pen'', price = 100, stock = 5,
                 images = [\<lparr>url = ''pen.png''\<rparr>], seller = ''s1''\<rparr>"
  have h: "products ex_db ''p1'' = Some ?p \<and> 3 \<le> product.stock ?p \<and> 3 \<le> product.stock ?p"
    by (simp add: ex_db_def ex_products_def)
  from post_orders_per_line_stock_check [where st = ex_db and pid = "''p1''" and p = ?p
      and ?q1.0 = 3 and ?q2.0 = 3 and sh = "\<lambda>_. 0" and tx = "\<lambda>_. 0" and now = 10 and oid = "''o1''"
      and num = "''ORD-1''" and uid = "''u1''" and addr = ex_address and pm = "''cod''"
      and nts = None, THEN conjunct2, THEN conjunct2, rule_format, OF h]
  obtain ord st' where r: "post_orders (\<lambda>_. 0) (\<lambda>_. 0) 10 ''o1'' ''ORD-1'' ''u1''
        [\<lparr>item.product = ''p1'', quantity = 3\<rparr>, \<lparr>item.product = ''p1'', quantity = 3\<rparr>]
        ex_address ''cod'' None ex_db = (Inr ord, st')"
    and s: "products st' ''p1'' = Some (?p\<lparr>product.stock := product.stock ?p - 3 - 3\<rparr>)"
    by blast
  from s have "map_option product.stock (products st' ''p1'') = Some (- 1)" by simp
  with r have "\<exists>ord st'. post_orders (\<lambda>_. 0) (\<lambda>_. 0) 10 ''o1'' ''ORD-1'' ''u1''
        [\<lparr>item.product = ''p1'', quantity = 3\<rparr>, \<lparr>item.product = ''p1'', quantity = 3\<rparr>]
        ex_address ''cod'' None ex_db = (Inr ord, st') \<and>
      map_option product.stock (products st' ''p1'') = Some (- 1)"
    by blast
  moreover have "map_option product.stock (products ex_db ''p1'') = Some 5"
    using h by simp
  ultimately show ?thesis by simp
qed

subsection \<open>Cancellation\<close>

lemma put_orders_cancel_ok:
  assumes "orders st oid = Some ord" and "user ord = uid"
    and "order.status ord = ''pending'' \<or> order.status ord = ''confirmed''"
  shows "put_orders_cancel now uid oid st =
     (Inr (addStatusUpdate ''cancelled'' ''Cancelled by user'' now ord),
      st\<lparr>orders := (orders st)(oid \<mapsto> addStatusUpdate ''cancelled'' ''Cancelled by user'' now ord),
         products := restore_stock (products st) (items ord)\<rparr>)"
  using assms by (auto simp add: put_orders_cancel_def Let_def addStatusUpdate_def)

lemma put_orders_cancel_Inr_D:
  assumes "put_orders_cancel now uid oid st = (Inr ord', st')"
  shows "\<exists>ord. orders st oid = Some ord \<and> user ord = uid \<and>
     (order.status ord = ''pending'' \<or> order.status ord = ''confirmed'')"
proof (cases "orders st oid")
  case None
  with assms show ?thesis by (simp add: put_orders_cancel_def)
next
  case (Some ord)
  with assms show ?thesis
    by (simp add: put_orders_cancel_def split: if_splits)
qed

lemma put_orders_cancel_Inl_D:
  assumes "put_orders_cancel now uid oid st = (Inl e, st')"
  shows "st' = st"
proof (cases "orders st oid")
  case None
  with assms show ?thesis by (simp add: put_orders_cancel_def)
next
  case (Some ord)
  with assms show ?thesis
    by (simp add: put_orders_cancel_def Let_def split: if_splits)
qed

text \<open>C5. Cancellation succeeds only for an order whose status is \<open>pending\<close> or
  \<open>confirmed\<close>. For such an order, cancelled by its owner, the status becomes
  \<open>cancelled\<close>, one \<open>cancelled\<close> entry is appended to the status history and every
  product's stock grows by the quantities of the order's lines that name it. For the
  owner's order in any other status the request fails with the conflict error (status
  400, "Order cannot be cancelled at this stage"), and any failure leaves the database,
  so every stock, unchanged.\<close>

theorem put_orders_cancel_contract:
  "((\<exists>ord' st'. put_orders_cancel now uid oid st = (Inr ord', st')) \<longrightarrow>
      (\<exists>ord. orders st oid = Some ord \<and>
         (order.status ord = ''pending'' \<or> order.status ord = ''confirmed''))) \<and>
   (orders st oid = Some ord \<and> user ord = uid \<and>
    (order.status ord = ''pending'' \<or> order.status ord = ''confirmed'') \<longrightarrow>
      (\<exists>ord' st'. put_orders_cancel now uid oid st = (Inr ord', st') \<and>
         order.status ord' = ''cancelled'' \<and>
         statusHistory ord' = statusHistory ord @
           [\<lparr>status_entry.status = ''cancelled'', note' = ''Cancelled by user'', timestamp = now\<rparr>] \<and>
         orders st' oid = Some ord' \<and>
         (\<forall>pid p. products st pid = Some p \<longrightarrow>
            products st' pid = Some (p\<lparr>product.stock := product.stock p +
              sum_list (map order_item.quantity
                         (filter (\<lambda>i. order_item.product i = pid) (items ord)))\<rparr>)))) \<and>
   (orders st oid = Some ord \<and> user ord = uid \<and>
    order.status ord \<noteq> ''pending'' \<and> order.status ord \<noteq> ''confirmed'' \<longrightarrow>
      put_orders_cancel now uid oid st =
        (Inl (AppError ''Order cannot be cancelled at this stage'' 400), st)) \<and>
   (\<forall>e st'. put_orders_cancel now uid oid st = (Inl e, st') \<longrightarrow>
      st' = st \<and> products st' = products st)"
proof (intro conjI impI allI)
  assume "\<exists>ord' st'. put_orders_cancel now uid oid st = (Inr ord', st')"
  then obtain ord' st' where "put_orders_cancel now uid oid st = (Inr ord', st')" by blast
  from put_orders_cancel_Inr_D [OF this]
  show "\<exists>ord. orders st oid = Some ord \<and>
         (order.status ord = ''pending'' \<or> order.status ord = ''confirmed'')"
    by blast
next
  assume a: "orders st oid = Some ord \<and> user ord = uid \<and>
    (order.status ord = ''pending'' \<or> order.status ord = ''confirmed'')"
  let ?ord' = "addStatusUpdate ''cancelled'' ''Cancelled by user'' now ord"
  let ?st' = "st\<lparr>orders := (orders st)(oid \<mapsto> ?ord'),
         products := restore_stock (products st) (items ord)\<rparr>"
  from a have r: "put_orders_cancel now uid oid st = (Inr ?ord', ?st')"
    by (simp add: put_orders_cancel_ok)
  have s: "order.status ?ord' = ''cancelled''"
    by (simp add: addStatusUpdate_def)
  have h: "statusHistory ?ord' = statusHistory ord @
           [\<lparr>status_entry.status = ''cancelled'', note' = ''Cancelled by user'', timestamp = now\<rparr>]"
    by (simp add: addStatusUpdate_def)
  have o: "orders ?st' oid = Some ?ord'" by simp
  have p: "\<forall>pid p. products st pid = Some p \<longrightarrow>
            products ?st' pid = Some (p\<lparr>product.stock := product.stock p +
              sum_list (map order_item.quantity
                         (filter (\<lambda>i. order_item.product i = pid) (items ord)))\<rparr>)"
    by (simp add: restore_stock_lookup)
  from r s h o p
  show "\<exists>ord' st'. put_orders_cancel now uid oid st = (Inr ord', st') \<and>
         order.status ord' = ''cancelled'' \<and>
         statusHistory ord' = statusHistory ord @
           [\<lparr>status_entry.status = ''cancelled'', note' = ''Cancelled by user'', timestamp = now\<rparr>] \<and>
         orders st' oid = Some ord' \<and>
         (\<forall>pid p. products st pid = Some p \<longrightarrow>
            products st' pid = Some (p\<lparr>product.stock := product.stock p +
              sum_list (map order_item.quantity
                         (filter (\<lambda>i. order_item.product i = pid) (items ord)))\<rparr>))"
    by blast
next
  assume "orders st oid = Some ord \<and> user ord = uid \<and>
    order.status ord \<noteq> ''pending'' \<and> order.status ord \<noteq> ''confirmed''"
  then show "put_orders_cancel now uid oid st =
        (Inl (AppError ''Order cannot be cancelled at this stage'' 400), st)"
    by (simp add: put_orders_cancel_def)
next
  fix e st'
  assume "put_orders_cancel now uid oid st = (Inl e, st')"
  from put_orders_cancel_Inl_D [OF this] show "st' = st" .
next
  fix e st'
  assume "put_orders_cancel now uid oid st = (Inl e, st')"
  from put_orders_cancel_Inl_D [OF this] show "products st' = products st" by simp
qed

theorem put_orders_cancel_contract_witness:
  "orders ex_db_ordered ''o1'' = Some ex_order \<and> user ex_order = ''u1'' \<and>
   order.status ex_order = ''pending'' \<and>
   map_option product.stock (products ex_db_ordered ''p1'') = Some 3 \<and>
   (\<exists>ord' st'. put_orders_cancel 20 ''u1'' ''o1'' ex_db_ordered = (Inr ord', st') \<and>
      order.status ord' = ''cancelled'' \<and>
      map status_entry.status (statusHistory ord') = [''pending'', ''cancelled''] \<and>
      map_option product.stock (products st' ''p1'') = Some 5) \<and>
   map_option order.status (orders ex_db_ordered ''o2'') = Some ''shipped'' \<and>
   put_orders_cancel 20 ''u1'' ''o2'' ex_db_ordered =
     (Inl (AppError ''Order cannot be cancelled at this stage'' 400), ex_db_ordered)"
proof -
  let ?p = "\<lparr>product.name = ''Pen'', price = 100, stock = 3,
                 images = [\<lparr>url = ''pen.png''\<rparr>], seller = ''s1''\<rparr>"
  let ?o2 = "ex_order\<lparr>order.status := ''shipped''\<rparr>"
  have o1: "orders ex_db_ordered ''o1'' = Some ex_order"
    by (simp add: ex_db_ordered_def)
  have u1: "user ex_order = ''u1''" and s1: "order.status ex_order = ''pending''"
    by (simp_all add: ex_order_def)
  have p1: "products ex_db_ordered ''p1'' = Some ?p"
    by (simp add: ex_db_ordered_def)
  have o2: "orders ex_db_ordered ''o2'' = Some ?o2"
    by (simp add: ex_db_ordered_def)
  have u2: "user ?o2 = ''u1''" by (simp add: ex_order_def)
  have s2: "order.status ?o2 \<noteq> ''pending'' \<and> order.status ?o2 \<noteq> ''confirmed''" by simp
  from o1 u1 s1 put_orders_cancel_contract [where st = ex_db_ordered and oid = "''o1''"
      and uid = "''u1''" and ord = ex_order and now = 20, THEN conjunct2, THEN conjunct1]
  obtain ord' st' where r: "put_orders_cancel 20 ''u1'' ''o1'' ex_db_ordered = (Inr ord', st')"
    and c: "order.status ord' = ''cancelled''"
    and h: "statusHistory ord' = statusHistory ex_order @
           [\<lparr>status_entry.status = ''cancelled'', note' = ''Cancelled by user'', timestamp = 20\<rparr>]"
    and p: "\<forall>pid p. products ex_db_ordered pid = Some p \<longrightarrow>
            products st' pid = Some (p\<lparr>product.stock := product.stock p +
              sum_list (map order_item.quantity
                         (filter (\<lambda>i. order_item.product i = pid) (items ex_order)))\<rparr>)"
    by blast
  from h have h': "map status_entry.status (statusHistory ord') = [''pending'', ''cancelled'']"
    by (simp add: ex_order_def)
  from p p1 have "products st' ''p1'' = Some (?p\<lparr>product.stock := product.stock ?p +
              sum_list (map order_item.quantity
                         (filter (\<lambda>i. order_item.product i = ''p1'') (items ex_order)))\<rparr>)"
    by blast
  then have p': "map_option product.stock (products st' ''p1'') = Some 5"
    by (simp add: ex_order_def)
  have first: "\<exists>ord' st'. put_orders_cancel 20 ''u1'' ''o1'' ex_db_ordered = (Inr ord', st') \<and>
      order.status ord' = ''cancelled'' \<and>
      map status_entry.status (statusHistory ord') = [''pending'', ''cancelled''] \<and>
      map_option product.stock (products st' ''p1'') = Some 5"
    by (rule exI [of _ ord'], rule exI [of _ st']) (simp add: r c h' p')
  from o2 u2 s2 put_orders_cancel_contract [where st = ex_db_ordered and oid = "''o2''"
      and uid = "''u1''" and ord = ?o2 and now = 20, THEN conjunct2, THEN conjunct2, THEN conjunct1]
  have second: "put_orders_cancel 20 ''u1'' ''o2'' ex_db_ordered =
     (Inl (AppError ''Order cannot be cancelled at this stage'' 400), ex_db_ordered)"
    by blast
  from o1 u1 s1 p1 first o2 second show ?thesis by simp
qed

subsection \<open>Payment verification\<close>

lemma verify_payment_match:
  assumes "orders st orderId = Some ord" and "user ord = uid"
    and "rzSignature = hmac (RAZORPAY_KEY_SECRET env) (rzOrderId @ ''|'' @ rzPaymentId)"
  shows "verify_payment env hmac now uid orderId rzOrderId rzPaymentId rzSignature st =
     (Inr (addStatusUpdate ''confirmed'' ''Payment completed successfully'' now
            (ord\<lparr>paymentResult :=
                   \<lparr>id' = Some rzPaymentId, payment_result.status = Some ''completed'',
                    razorpayOrderId = Some rzOrderId, razorpayPaymentId = Some rzPaymentId,
                    razorpaySignature = Some rzSignature\<rparr>,
                 paymentStatus := ''completed'', isPaid := True, paidAt := Some now\<rparr>)),
      st\<lparr>orders := (orders st)(orderId \<mapsto>
          addStatusUpdate ''confirmed'' ''Payment completed successfully'' now
            (ord\<lparr>paymentResult :=
                   \<lparr>id' = Some rzPaymentId, payment_result.status = Some ''completed'',
                    razorpayOrderId = Some rzOrderId, razorpayPaymentId = Some rzPaymentId,
                    razorpaySignature = Some rzSignature\<rparr>,
                 paymentStatus := ''completed'', isPaid := True, paidAt := Some now\<rparr>))\<rparr>)"
  using assms by (simp add: verify_payment_def Let_def)

lemma verify_payment_mismatch:
  assumes "rzSignature \<noteq> hmac (RAZORPAY_KEY_SECRET env) (rzOrderId @ ''|'' @ rzPaymentId)"
  shows "snd (verify_payment env hmac now uid orderId rzOrderId rzPaymentId rzSignature st) = st"
    and "\<exists>e. fst (verify_payment env hmac now uid orderId rzOrderId rzPaymentId rzSignature st) = Inl e"
  using assms by (auto simp add: verify_payment_def Let_def split: option.splits)

lemma verify_payment_Inr_D:
  assumes "verify_payment env hmac now uid orderId rzOrderId rzPaymentId rzSignature st = (Inr ord', st')"
  shows "rzSignature = hmac (RAZORPAY_KEY_SECRET env) (rzOrderId @ ''|'' @ rzPaymentId)"
proof (rule ccontr)
  assume "rzSignature \<noteq> hmac (RAZORPAY_KEY_SECRET env) (rzOrderId @ ''|'' @ rzPaymentId)"
  then have "\<exists>e. fst (verify_payment env hmac now uid orderId rzOrderId rzPaymentId rzSignature st) = Inl e"
    by (rule verify_payment_mismatch(2))
  with assms show False by simp
qed

text \<open>C2. Verify-payment recomputes the expected signature as the HMAC, keyed by the gateway
  secret, of \<open>gatewayOrderId + "|" + paymentId\<close>. For a request that names an existing
  order of the caller: when the signature given equals the recomputed one, the order is
  stored paid (\<open>isPaid\<close> true, \<open>paidAt\<close> the request's time, payment status completed) with a
  \<open>confirmed\<close> entry appended to its history; when it differs, the request fails with
  "Invalid payment signature" (400). No request marks an order paid unless the signature
  matches, and every request with a mismatching signature leaves the whole database, so
  the order's \<open>isPaid\<close>, as it was.\<close>

theorem verify_payment_signature:
  "(orders st orderId = Some ord \<and> user ord = uid \<and>
    rzSignature = hmac (RAZORPAY_KEY_SECRET env) (rzOrderId @ ''|'' @ rzPaymentId) \<longrightarrow>
      (\<exists>ord'. verify_payment env hmac now uid orderId rzOrderId rzPaymentId rzSignature st =
                 (Inr ord', st\<lparr>orders := (orders st)(orderId \<mapsto> ord')\<rparr>) \<and>
         isPaid ord' \<and> paidAt ord' = Some now \<and> paymentStatus ord' = ''completed'' \<and>
         order.status ord' = ''confirmed'' \<and>
         statusHistory ord' = statusHistory ord @
           [\<lparr>status_entry.status = ''confirmed'', note' = ''Payment completed successfully'',
             timestamp = now\<rparr>])) \<and>
   (orders st orderId = Some ord \<and> user ord = uid \<and>
    rzSignature \<noteq> hmac (RAZORPAY_KEY_SECRET env) (rzOrderId @ ''|'' @ rzPaymentId) \<longrightarrow>
      verify_payment env hmac now uid orderId rzOrderId rzPaymentId rzSignature st =
        (Inl (AppError ''Invalid payment signature'' 400), st) \<and>
      res_status (fst (verify_payment env hmac now uid orderId rzOrderId rzPaymentId rzSignature st))
        = 400) \<and>
   ((\<exists>ord' st'. verify_payment env hmac now uid orderId rzOrderId rzPaymentId rzSignature st =
        (Inr ord', st')) \<longrightarrow>
      rzSignature = hmac (RAZORPAY_KEY_SECRET env) (rzOrderId @ ''|'' @ rzPaymentId)) \<and>
   (rzSignature \<noteq> hmac (RAZORPAY_KEY_SECRET env) (rzOrderId @ ''|'' @ rzPaymentId) \<longrightarrow>
      snd (verify_payment env hmac now uid orderId rzOrderId rzPaymentId rzSignature st) = st \<and>
      map_option isPaid
        (orders (snd (verify_payment env hmac now uid orderId rzOrderId rzPaymentId rzSignature st))
           orderId) = map_option isPaid (orders st orderId))"
proof (intro conjI impI)
  assume a: "orders st orderId = Some ord \<and> user ord = uid \<and>
    rzSignature = hmac (RAZORPAY_KEY_SECRET env) (rzOrderId @ ''|'' @ rzPaymentId)"
  let ?ord' = "addStatusUpdate ''confirmed'' ''Payment completed successfully'' now
            (ord\<lparr>paymentResult :=
                   \<lparr>id' = Some rzPaymentId, payment_result.status = Some ''completed'',
                    razorpayOrderId = Some rzOrderId, razorpayPaymentId = Some rzPaymentId,
                    razorpaySignature = Some rzSignature\<rparr>,
                 paymentStatus := ''completed'', isPaid := True, paidAt := Some now\<rparr>)"
  from a have r: "verify_payment env hmac now uid orderId rzOrderId rzPaymentId rzSignature st =
                 (Inr ?ord', st\<lparr>orders := (orders st)(orderId \<mapsto> ?ord')\<rparr>)"
    using verify_payment_match [of st orderId ord uid rzSignature hmac env rzOrderId rzPaymentId now]
    by blast
  have f: "isPaid ?ord' \<and> paidAt ?ord' = Some now \<and> paymentStatus ?ord' = ''completed'' \<and>
         order.status ?ord' = ''confirmed'' \<and>
         statusHistory ?ord' = statusHistory ord @
           [\<lparr>status_entry.status = ''confirmed'', note' = ''Payment completed successfully'',
             timestamp = now\<rparr>]"
    by (simp add: addStatusUpdate_def)
  show "\<exists>ord'. verify_payment env hmac now uid orderId rzOrderId rzPaymentId rzSignature st =
                 (Inr ord', st\<lparr>orders := (orders st)(orderId \<mapsto> ord')\<rparr>) \<and>
         isPaid ord' \<and> paidAt ord' = Some now \<and> paymentStatus ord' = ''completed'' \<and>
         order.status ord' = ''confirmed'' \<and>
         statusHistory ord' = statusHistory ord @
           [\<lparr>status_entry.status = ''confirmed'', note' = ''Payment completed successfully'',
             timestamp = now\<rparr>]"
    by (rule exI [of _ ?ord']) (use r f in blast)
next
  assume a: "orders st orderId = Some ord \<and> user ord = uid \<and>
    rzSignature \<noteq> hmac (RAZORPAY_KEY_SECRET env) (rzOrderId @ ''|'' @ rzPaymentId)"
  then show r: "verify_payment env hmac now uid orderId rzOrderId rzPaymentId rzSignature st =
        (Inl (AppError ''Invalid payment signature'' 400), st)"
    by (auto simp add: verify_payment_def Let_def)
  then show "res_status (fst (verify_payment env hmac now uid orderId rzOrderId rzPaymentId rzSignature st))
        = 400"
    by (simp add: res_status_def)
next
  assume "\<exists>ord' st'. verify_payment env hmac now uid orderId rzOrderId rzPaymentId rzSignature st =
        (Inr ord', st')"
  then obtain ord' st' where
    "verify_payment env hmac now uid orderId rzOrderId rzPaymentId rzSignature st = (Inr ord', st')"
    by blast
  from verify_payment_Inr_D [OF this]
  show "rzSignature = hmac (RAZORPAY_KEY_SECRET env) (rzOrderId @ ''|'' @ rzPaymentId)" .
next
  assume a: "rzSignature \<noteq> hmac (RAZORPAY_KEY_SECRET env) (rzOrderId @ ''|'' @ rzPaymentId)"
  from a
  show s: "snd (verify_payment env hmac now uid orderId rzOrderId rzPaymentId rzSignature st) = st"
    by (rule verify_payment_mismatch(1))
  show "map_option isPaid
        (orders (snd (verify_payment env hmac now uid orderId rzOrderId rzPaymentId rzSignature st))
           orderId) = map_option isPaid (orders st orderId)"
    by (simp add: s)
qed

theorem verify_payment_signature_witness:
  "orders ex_db_ordered ''o1'' = Some ex_order \<and> user ex_order = ''u1'' \<and> \<not> isPaid ex_order \<and>
   ''ks:rzo1|pay1'' = ex_hmac (RAZORPAY_KEY_SECRET ex_env) (''rzo1'' @ ''|'' @ ''pay1'') \<and>
   (\<exists>ord'. verify_payment ex_env ex_hmac 20 ''u1'' ''o1'' ''rzo1'' ''pay1'' ''ks:rzo1|pay1''
              ex_db_ordered
            = (Inr ord', ex_db_ordered\<lparr>orders := (orders ex_db_ordered)(''o1'' \<mapsto> ord')\<rparr>) \<and>
      isPaid ord' \<and> paidAt ord' = Some 20 \<and>
      map status_entry.status (statusHistory ord') = [''pending'', ''confirmed'']) \<and>
   ''forged'' \<noteq> ex_hmac (RAZORPAY_KEY_SECRET ex_env) (''rzo1'' @ ''|'' @ ''pay1'') \<and>
   verify_payment ex_env ex_hmac 20 ''u1'' ''o1'' ''rzo1'' ''pay1'' ''forged'' ex_db_ordered
     = (Inl (AppError ''Invalid payment signature'' 400), ex_db_ordered) \<and>
   map_option isPaid
     (orders (snd (verify_payment ex_env ex_hmac 20 ''u1'' ''o1'' ''rzo1'' ''pay1'' ''forged''
                     ex_db_ordered)) ''o1'') = Some False"
proof -
  have o1: "orders ex_db_ordered ''o1'' = Some ex_order"
    by (simp add: ex_db_ordered_def)
  have u1: "user ex_order = ''u1''" and np: "\<not> isPaid ex_order"
    by (simp_all add: ex_order_def)
  have good: "''ks:rzo1|pay1'' = ex_hmac (RAZORPAY_KEY_SECRET ex_env) (''rzo1'' @ ''|'' @ ''pay1'')"
    by (simp add: ex_hmac_def ex_env_def)
  have bad: "''forged'' \<noteq> ex_hmac (RAZORPAY_KEY_SECRET ex_env) (''rzo1'' @ ''|'' @ ''pay1'')"
    by (simp add: ex_hmac_def ex_env_def)
  note t = verify_payment_signature [where st = ex_db_ordered and orderId = "''o1''"
      and ord = ex_order and uid = "''u1''" and hmac = ex_hmac and env = ex_env
      and rzOrderId = "''rzo1''" and rzPaymentId = "''pay1''" and now = 20]
  from o1 u1 good t [where rzSignature = "''ks:rzo1|pay1''", THEN conjunct1]
  obtain ord' where r: "verify_payment ex_env ex_hmac 20 ''u1'' ''o1'' ''rzo1'' ''pay1'' ''ks:rzo1|pay1''
              ex_db_ordered
            = (Inr ord', ex_db_ordered\<lparr>orders := (orders ex_db_ordered)(''o1'' \<mapsto> ord')\<rparr>)"
    and p: "isPaid ord'" "paidAt ord' = Some 20"
    and h: "statusHistory ord' = statusHistory ex_order @
           [\<lparr>status_entry.status = ''confirmed'', note' = ''Payment completed successfully'',
             timestamp = 20\<rparr>]"
    by blast
  from h have h': "map status_entry.status (statusHistory ord') = [''pending'', ''confirmed'']"
    by (simp add: ex_order_def)
  have first: "\<exists>ord'. verify_payment ex_env ex_hmac 20 ''u1'' ''o1'' ''rzo1'' ''pay1'' ''ks:rzo1|pay1''
              ex_db_ordered
            = (Inr ord', ex_db_ordered\<lparr>orders := (orders ex_db_ordered)(''o1'' \<mapsto> ord')\<rparr>) \<and>
      isPaid ord' \<and> paidAt ord' = Some 20 \<and>
      map status_entry.status (statusHistory ord') = [''pending'', ''confirmed'']"
    by (rule exI [of _ ord']) (simp add: r p h')
  from o1 u1 bad t [where rzSignature = "''forged''", THEN conjunct2, THEN conjunct1]
  have second: "verify_payment ex_env ex_hmac 20 ''u1'' ''o1'' ''rzo1'' ''pay1'' ''forged'' ex_db_ordered
     = (Inl (AppError ''Invalid payment signature'' 400), ex_db_ordered)"
    by blast
  from np have third: "map_option isPaid
     (orders (snd (verify_payment ex_env ex_hmac 20 ''u1'' ''o1'' ''rzo1'' ''pay1'' ''forged''
                     ex_db_ordered)) ''o1'') = Some False"
    by (simp add: second o1)
  from o1 u1 np good first bad second third show ?thesis by blast
qed

subsection \<open>Webhook\<close>



lemma webhook_captured_apply:
  assumes "sig = Some (hmac (RAZORPAY_WEBHOOK_SECRET env) (stringify body))"
    and "event body = ''payment.captured''"
    and "payload_payment_entity_notes_orderId body = Some oid"
    and "orders st oid = Some ord"
  shows "webhook env hmac stringify now sig body st =
     (Inr (), st\<lparr>orders := (orders st)(oid \<mapsto>
        addStatusUpdate ''confirmed'' ''Payment captured via webhook'' now
          (ord\<lparr>paymentStatus := ''completed'', isPaid := True, paidAt := Some now\<rparr>))\<rparr>)"
  using assms by (simp add: webhook_def Let_def)




lemma webhook_captured_orders:
  assumes "sig = Some (hmac (RAZORPAY_WEBHOOK_SECRET env) (stringify body))"
    and "event body = ''payment.captured''"
    and "payload_payment_entity_notes_orderId body = Some oid"
    and "orders st oid = Some ord"
  shows "orders (snd (webhook env hmac stringify now sig body st)) oid =
     Some (addStatusUpdate ''confirmed'' ''Payment captured via webhook'' now
             (ord\<lparr>paymentStatus := ''completed'', isPaid := True, paidAt := Some now\<rparr>))"
  using assms by (simp add: webhook_captured_apply)

lemma ex_captured_signed:
  "Some ''ws:payment.captured/o1'' =
     Some (ex_hmac (RAZORPAY_WEBHOOK_SECRET ex_env) (ex_stringify ex_captured))"
  by (simp add: ex_hmac_def ex_env_def ex_stringify_def ex_captured_def)

lemma ex_captured_orders:
  "orders st ''o1'' = Some ord \<Longrightarrow>
   orders (snd (webhook ex_env ex_hmac ex_stringify t (Some ''ws:payment.captured/o1'')
                  ex_captured st)) ''o1'' =
     Some (addStatusUpdate ''confirmed'' ''Payment captured via webhook'' t
             (ord\<lparr>paymentStatus := ''completed'', isPaid := True, paidAt := Some t\<rparr>))"
  by (rule webhook_captured_orders [where hmac = ex_hmac and stringify = ex_stringify
        and env = ex_env and body = ex_captured, OF ex_captured_signed])
     (simp_all add: ex_captured_def)

text \<open>C3, as stated, fails: a second delivery of the same \<open>payment.captured\<close> event changes
  the order again, whether it arrives later (the paid timestamp moves from 30 to 40) or at
  the same clock reading (the history still grows from two entries to three).\<close>

theorem webhook_captured_twice_counterexample:
  "orders (snd (webhook ex_env ex_hmac ex_stringify 40 (Some ''ws:payment.captured/o1'') ex_captured
             (snd (webhook ex_env ex_hmac ex_stringify 30 (Some ''ws:payment.captured/o1'')
                     ex_captured ex_db_ordered)))) ''o1''
     \<noteq> orders (snd (webhook ex_env ex_hmac ex_stringify 30 (Some ''ws:payment.captured/o1'')
                     ex_captured ex_db_ordered)) ''o1'' \<and>
   map_option paidAt
     (orders (snd (webhook ex_env ex_hmac ex_stringify 30 (Some ''ws:payment.captured/o1'')
                     ex_captured ex_db_ordered)) ''o1'') = Some (Some 30) \<and>
   map_option paidAt
     (orders (snd (webhook ex_env ex_hmac ex_stringify 40 (Some ''ws:payment.captured/o1'') ex_captured
             (snd (webhook ex_env ex_hmac ex_stringify 30 (Some ''ws:payment.captured/o1'')
                     ex_captured ex_db_ordered)))) ''o1'') = Some (Some 40) \<and>
   map_option (map status_entry.status \<circ> statusHistory)
     (orders (snd (webhook ex_env ex_hmac ex_stringify 30 (Some ''ws:payment.captured/o1'')
                     ex_captured ex_db_ordered)) ''o1'') = Some [''pending'', ''confirmed''] \<and>
   map_option (map status_entry.status \<circ> statusHistory)
     (orders (snd (webhook ex_env ex_hmac ex_stringify 30 (Some ''ws:payment.captured/o1'') ex_captured
             (snd (webhook ex_env ex_hmac ex_stringify 30 (Some ''ws:payment.captured/o1'')
                     ex_captured ex_db_ordered)))) ''o1'')
     = Some [''pending'', ''confirmed'', ''confirmed'']"
proof -
  have o0: "orders ex_db_ordered ''o1'' = Some ex_order"
    by (simp add: ex_db_ordered_def)
  note o1 = ex_captured_orders [OF o0, of 30]
  note o2 = ex_captured_orders [OF o1, of 40]
  note o3 = ex_captured_orders [OF o1, of 30]
  show ?thesis
    unfolding o1 o2 o3 by (simp add: addStatusUpdate_def ex_order_def)
qed

text \<open>C3, amended. Applying the \<open>payment.captured\<close> webhook a second time to the same order
  is accepted (200) and leaves the order paid, with payment status \<open>completed\<close> and status
  \<open>confirmed\<close>, as after the first application; it is a further mutation all the same:
  \<open>paidAt\<close> is overwritten with the time of the second application and a second
  \<open>confirmed\<close> entry is appended to the status history. Nothing else changes.\<close>

theorem webhook_captured_twice:
  assumes "sig = Some (hmac (RAZORPAY_WEBHOOK_SECRET env) (stringify body))"
    and "event body = ''payment.captured''"
    and "payload_payment_entity_notes_orderId body = Some oid"
    and "orders st oid = Some ord"
  shows "\<exists>ord1 ord2.
     orders (snd (webhook env hmac stringify t1 sig body st)) oid = Some ord1 \<and>
     webhook env hmac stringify t2 sig body (snd (webhook env hmac stringify t1 sig body st)) =
       (Inr (), (snd (webhook env hmac stringify t1 sig body st))
                  \<lparr>orders := (orders (snd (webhook env hmac stringify t1 sig body st)))(oid \<mapsto> ord2)\<rparr>) \<and>
     isPaid ord1 \<and> isPaid ord2 \<and>
     paymentStatus ord1 = ''completed'' \<and> paymentStatus ord2 = ''completed'' \<and>
     order.status ord1 = ''confirmed'' \<and> order.status ord2 = ''confirmed'' \<and>
     ord2 = ord1\<lparr>paidAt := Some t2,
                 statusHistory := statusHistory ord1 @
                   [\<lparr>status_entry.status = ''confirmed'', note' = ''Payment captured via webhook'',
                     timestamp = t2\<rparr>]\<rparr>"
proof -
  let ?st1 = "snd (webhook env hmac stringify t1 sig body st)"
  let ?ord1 = "addStatusUpdate ''confirmed'' ''Payment captured via webhook'' t1
             (ord\<lparr>paymentStatus := ''completed'', isPaid := True, paidAt := Some t1\<rparr>)"
  let ?ord2 = "addStatusUpdate ''confirmed'' ''Payment captured via webhook'' t2
             (?ord1\<lparr>paymentStatus := ''completed'', isPaid := True, paidAt := Some t2\<rparr>)"
  from assms have o1: "orders ?st1 oid = Some ?ord1"
    by (rule webhook_captured_orders)
  from assms(1-3) o1 have r2: "webhook env hmac stringify t2 sig body ?st1 =
       (Inr (), ?st1\<lparr>orders := (orders ?st1)(oid \<mapsto> ?ord2)\<rparr>)"
    by (rule webhook_captured_apply)
  have f: "isPaid ?ord1 \<and> isPaid ?ord2 \<and>
     paymentStatus ?ord1 = ''completed'' \<and> paymentStatus ?ord2 = ''completed'' \<and>
     order.status ?ord1 = ''confirmed'' \<and> order.status ?ord2 = ''confirmed'' \<and>
     ?ord2 = ?ord1\<lparr>paidAt := Some t2,
                 statusHistory := statusHistory ?ord1 @
                   [\<lparr>status_entry.status = ''confirmed'', note' = ''Payment captured via webhook'',
                     timestamp = t2\<rparr>]\<rparr>"
    by (simp add: addStatusUpdate_def)
  show ?thesis
    by (rule exI [of _ ?ord1], rule exI [of _ ?ord2]) (use o1 r2 f in blast)
qed

theorem webhook_captured_twice_witness:
  "Some ''ws:payment.captured/o1'' =
     Some (ex_hmac (RAZORPAY_WEBHOOK_SECRET ex_env) (ex_stringify ex_captured)) \<and>
   event ex_captured = ''payment.captured'' \<and>
   payload_payment_entity_notes_orderId ex_captured = Some ''o1'' \<and>
   orders ex_db_ordered ''o1'' = Some ex_order \<and>
   (\<exists>ord1 ord2.
      orders (snd (webhook ex_env ex_hmac ex_stringify 30 (Some ''ws:payment.captured/o1'')
                     ex_captured ex_db_ordered)) ''o1'' = Some ord1 \<and>
      orders (snd (webhook ex_env ex_hmac ex_stringify 40 (Some ''ws:payment.captured/o1'') ex_captured
             (snd (webhook ex_env ex_hmac ex_stringify 30 (Some ''ws:payment.captured/o1'')
                     ex_captured ex_db_ordered)))) ''o1'' = Some ord2 \<and>
      isPaid ord1 \<and> isPaid ord2 \<and> order.status ord2 = order.status ord1 \<and>
      paidAt ord2 = Some 40 \<and> length (statusHistory ord2) = Suc (length (statusHistory ord1)))"
proof -
  have h2: "event ex_captured = ''payment.captured''"
    and h3: "payload_payment_entity_notes_orderId ex_captured = Some ''o1''"
    by (simp_all add: ex_captured_def)
  have h4: "orders ex_db_ordered ''o1'' = Some ex_order"
    by (simp add: ex_db_ordered_def)
  from webhook_captured_twice [where hmac = ex_hmac and stringify = ex_stringify
        and env = ex_env and body = ex_captured and ?t1.0 = 30 and ?t2.0 = 40,
        OF ex_captured_signed h2 h3 h4]
  obtain ord1 ord2 where
    a: "orders (snd (webhook ex_env ex_hmac ex_stringify 30 (Some ''ws:payment.captured/o1'')
                     ex_captured ex_db_ordered)) ''o1'' = Some ord1"
    and b: "webhook ex_env ex_hmac ex_stringify 40 (Some ''ws:payment.captured/o1'') ex_captured
             (snd (webhook ex_env ex_hmac ex_stringify 30 (Some ''ws:payment.captured/o1'')
                     ex_captured ex_db_ordered)) =
       (Inr (), (snd (webhook ex_env ex_hmac ex_stringify 30 (Some ''ws:payment.captured/o1'')
                     ex_captured ex_db_ordered))
                  \<lparr>orders := (orders (snd (webhook ex_env ex_hmac ex_stringify 30
                      (Some ''ws:payment.captured/o1'') ex_captured ex_db_ordered)))(''o1'' \<mapsto> ord2)\<rparr>)"
    and c: "isPaid ord1" "isPaid ord2" "order.status ord1 = ''confirmed''"
      "order.status ord2 = ''confirmed''"
    and d: "ord2 = ord1\<lparr>paidAt := Some 40,
                 statusHistory := statusHistory ord1 @
                   [\<lparr>status_entry.status = ''confirmed'', note' = ''Payment captured via webhook'',
                     timestamp = 40\<rparr>]\<rparr>"
    by blast
  have e: "paidAt ord2 = Some 40" "length (statusHistory ord2) = Suc (length (statusHistory ord1))"
    by (simp_all add: d)
  have "\<exists>ord1 ord2.
      orders (snd (webhook ex_env ex_hmac ex_stringify 30 (Some ''ws:payment.captured/o1'')
                     ex_captured ex_db_ordered)) ''o1'' = Some ord1 \<and>
      orders (snd (webhook ex_env ex_hmac ex_stringify 40 (Some ''ws:payment.captured/o1'') ex_captured
             (snd (webhook ex_env ex_hmac ex_stringify 30 (Some ''ws:payment.captured/o1'')
                     ex_captured ex_db_ordered)))) ''o1'' = Some ord2 \<and>
      isPaid ord1 \<and> isPaid ord2 \<and> order.status ord2 = order.status ord1 \<and>
      paidAt ord2 = Some 40 \<and> length (statusHistory ord2) = Suc (length (statusHistory ord1))"
    by (rule exI [of _ ord1], rule exI [of _ ord2]) (simp add: a b c e)
  with ex_captured_signed h2 h3 h4 show ?thesis by blast
qed

subsection \<open>Amounts sent to the gateway\<close>








subsection \<open>Refund\<close>

lemma Math_round_100: "Math_round (js_mul 100 100) = 10000"
  by code_simp

lemma refund_handler_paid:
  assumes "orders st orderId = Some ord" and "isPaid ord"
    and "razorpay (payments_refund (razorpayPaymentId (paymentResult ord))
            (Math_round (js_mul amt 100)) ''normal'' (or_default reason ''Refund requested''))
          = Inr refund"
  shows "refund_handler razorpay now orderId amt reason st =
     (Inr (entity_id refund,
           addStatusUpdate ''cancelled'' (''Refund processed: '' @ entity_id refund) now
             (ord\<lparr>paymentStatus := ''refunded''\<rparr>)),
      st\<lparr>orders := (orders st)(orderId \<mapsto>
           addStatusUpdate ''cancelled'' (''Refund processed: '' @ entity_id refund) now
             (ord\<lparr>paymentStatus := ''refunded''\<rparr>))\<rparr>,
      [payments_refund (razorpayPaymentId (paymentResult ord))
         (Math_round (js_mul amt 100)) ''normal'' (or_default reason ''Refund requested'')])"
  using assms by (simp add: refund_handler_def Let_def)

lemma refund_handler_unpaid:
  "orders st orderId = Some ord \<Longrightarrow> \<not> isPaid ord \<Longrightarrow>
   refund_handler razorpay now orderId amt reason st = (Inl (AppError ''Order is not paid'' 400), st, [])"
  by (simp add: refund_handler_def)

lemma post_payments_refund_any_role:
  "authenticate env jwt_verify hdr st = Inr (uid, u) \<Longrightarrow>
   post_payments_refund env jwt_verify razorpay now hdr orderId amt reason st =
     refund_handler razorpay now orderId amt reason st"
  by (simp add: post_payments_refund_def)

lemma delete_users_needs_admin:
  "authenticate env jwt_verify hdr st = Inr (uid, u) \<Longrightarrow> role u \<noteq> ''admin'' \<Longrightarrow>
   delete_users env jwt_verify hdr target st = (Inl (AppError ''Insufficient permissions'' 403), st)"
  by (simp add: delete_users_def authorize_def)

lemma ex_authenticate_u1:
  "authenticate ex_env ex_jwt_verify (Some ''Bearer a1'') ex_db_paid = Inr (''u1'', ex_user)"
  by (simp add: authenticate_def ex_env_def ex_jwt_verify_def ex_db_paid_def ex_db_users_def
      ex_user_def or_default_def)

text \<open>C6, the failing input. The caller \<open>u1\<close> has the role \<open>user\<close>, not \<open>admin\<close>; the refund
  route lets the request through all the same: the gateway refund is called, the order is
  stored \<open>refunded\<close> and the answer is 200. The same caller is turned away with 403 by
  \<open>DELETE /users/:id\<close>, a route that carries \<open>authorize('admin')\<close>.\<close>

theorem refund_by_non_admin:
  "map_option role (users ex_db_paid ''u1'') = Some ''user'' \<and>
   res_status (fst (post_payments_refund ex_env ex_jwt_verify ex_razorpay 50 (Some ''Bearer a1'')
                      ''o1'' 100 None ex_db_paid)) = 200 \<and>
   map_sum message fst (fst (post_payments_refund ex_env ex_jwt_verify ex_razorpay 50
                      (Some ''Bearer a1'') ''o1'' 100 None ex_db_paid)) = Inr ''rz1'' \<and>
   map_option paymentStatus
     (orders (fst (snd (post_payments_refund ex_env ex_jwt_verify ex_razorpay 50 (Some ''Bearer a1'')
                      ''o1'' 100 None ex_db_paid))) ''o1'') = Some ''refunded'' \<and>
   snd (snd (post_payments_refund ex_env ex_jwt_verify ex_razorpay 50 (Some ''Bearer a1'')
               ''o1'' 100 None ex_db_paid))
     = [payments_refund (Some ''pay1'') 10000 ''normal'' ''Refund requested''] \<and>
   delete_users ex_env ex_jwt_verify (Some ''Bearer a1'') ''u2'' ex_db_paid
     = (Inl (AppError ''Insufficient permissions'' 403), ex_db_paid)"
proof -
  have o: "orders ex_db_paid ''o1'' = Some ex_paid_order"
    by (simp add: ex_db_paid_def)
  have p: "isPaid ex_paid_order"
    and r: "razorpayPaymentId (paymentResult ex_paid_order) = Some ''pay1''"
    by (simp_all add: ex_paid_order_def)
  have g: "ex_razorpay (payments_refund (razorpayPaymentId (paymentResult ex_paid_order))
            (Math_round (js_mul 100 100)) ''normal'' (or_default None ''Refund requested''))
          = Inr \<lparr>entity_id = ''rz1'', entity_amount = 10000, entity_currency = ''INR''\<rparr>"
    by (simp add: ex_razorpay_def Math_round_100)
  note h = refund_handler_paid [where razorpay = ex_razorpay and amt = 100 and reason = None
      and now = 50, OF o p g]
  note q = post_payments_refund_any_role [OF ex_authenticate_u1, of ex_razorpay 50 "''o1''" 100 None]
  have u: "map_option role (users ex_db_paid ''u1'') = Some ''user''"
    by (simp add: ex_db_paid_def ex_db_users_def ex_user_def)
  have d: "delete_users ex_env ex_jwt_verify (Some ''Bearer a1'') ''u2'' ex_db_paid
     = (Inl (AppError ''Insufficient permissions'' 403), ex_db_paid)"
    by (rule delete_users_needs_admin [OF ex_authenticate_u1]) (simp add: ex_user_def)
  show ?thesis
    unfolding q h
    by (simp add: u d r res_status_def Math_round_100 or_default_def addStatusUpdate_def)
qed

subsection \<open>Refresh tokens\<close>











end
